theory Spec2Isabelle
  imports Main
begin

section \<open>Python syntax of the code cells\<close>

text \<open>
  The repository consists of Jupyter notebooks and README documents. A code cell holds
  Python source; it is embedded as its abstract syntax, with the node names of Python's
  \<^verbatim>\<open>ast\<close> module. The grammar also has the constructs the notebooks never use
  (definitions, branches, exception handling, asynchronous forms), so that their absence
  is a property of the embedded cells and not of the type. Comments are not part of the
  syntax tree. \<^verbatim>\<open>Shell\<close> is IPython's system escape, a line that starts with an
  exclamation mark.
\<close>

datatype expr =
    Name string
  | Attribute expr string
  | Subscript expr expr
  | Call expr "expr list" "(string \<times> expr) list"
  | Str string
  | Num int
  | Bool bool
  | Ellipsis
  | ListLit "expr list"
  | TupleLit "expr list"
  | DictLit "expr list" "expr list"
  | BinOp expr string expr
  | JoinedStr "expr list"
  | FormattedValue expr string
  | Lambda "string list" expr
  | IfExp expr expr expr
  | Await expr

datatype stmt =
    Import "(string \<times> string option) list"
  | ImportFrom string "(string \<times> string option) list"
  | Assign "expr list" expr
  | Expr expr
  | For expr expr "stmt list" "stmt list"
  | While expr "stmt list" "stmt list"
  | If expr "stmt list" "stmt list"
  | With "expr list" "stmt list"
  | Try "stmt list" "stmt list" "stmt list" "stmt list"
  | ExceptHandler "expr option" "stmt list"
  | Raise "expr option"
  | Return "expr option"
  | Pass
  | FunctionDef string "string list" "stmt list"
  | ClassDef string "expr list" "stmt list"
  | AsyncFunctionDef string "string list" "stmt list"
  | AsyncFor expr expr "stmt list" "stmt list"
  | AsyncWith "expr list" "stmt list"
  | Shell string

section \<open>Notebook documents\<close>

text \<open>
  What a cell printed is part of the notebook file. The text form of a collection is an
  indented tree: a named level, then one entry per key, each entry either an array header
  \<^verbatim>\<open><xdas.DataArray (time: 37500, distance: 9998)>\<close> or a nested level. An array
  header is kept as the list of its dimensions, name and size.
\<close>

datatype key = IntKey nat | StrKey string

type_synonym dims = "(string \<times> nat) list"

datatype tree =
    Leaf dims
  | Branch string "(key \<times> tree) list"

datatype display =
    CollectionRepr tree
  | ArrayRepr dims "string list"

datatype cell_output =
    ExecuteResult nat display
  | Stream string "string list"
  | Error string string

text \<open>
  A markdown cell is kept by its heading lines (the prose between them holds no code); a
  code cell by its execution count, its statements and its recorded outputs.
\<close>

datatype cell =
    Markdown "string list"
  | Code "nat option" "stmt list" "cell_output list"

type_synonym notebook = "cell list"

fun is_code :: "cell \<Rightarrow> bool" where
  "is_code (Code n body outs) = True"
| "is_code (Markdown hs) = False"

fun execution_count :: "cell \<Rightarrow> nat option" where
  "execution_count (Code n body outs) = n"
| "execution_count (Markdown hs) = None"

fun source :: "cell \<Rightarrow> stmt list" where
  "source (Code n body outs) = body"
| "source (Markdown hs) = []"

fun outputs :: "cell \<Rightarrow> cell_output list" where
  "outputs (Code n body outs) = outs"
| "outputs (Markdown hs) = []"

text \<open>The execution count that a recorded result carries.\<close>

fun result_number :: "cell_output \<Rightarrow> nat option list" where
  "result_number (ExecuteResult n d) = [Some n]"
| "result_number out = []"

definition code_cells :: "notebook \<Rightarrow> cell list" where
  "code_cells nb = filter is_code nb"

text \<open>The code cell that carries a given execution count, when there is exactly one.\<close>

definition cell_numbered :: "notebook \<Rightarrow> nat \<Rightarrow> cell option" where
  "cell_numbered nb n =
     (case filter (\<lambda>c. execution_count c = Some n) nb of [c] \<Rightarrow> Some c | _ \<Rightarrow> None)"

section \<open>The cells of 02_link_multi_acquisitions.ipynb\<close>

text \<open>
  Two expressions recur in the cells: the time slice
  \<^verbatim>\<open>slice("...", "...")\<close> and the selection \<^verbatim>\<open>x.sel(time=slice(...))\<close>.
\<close>

definition time_slice :: "string \<Rightarrow> string \<Rightarrow> expr" where
  "time_slice t0 t1 = Call (Name ''slice'') [Str t0, Str t1] []"

definition sel_time :: "expr \<Rightarrow> string \<Rightarrow> string \<Rightarrow> expr" where
  "sel_time x t0 t1 = Call (Attribute x ''sel'') [] [(''time'', time_slice t0 t1)]"

definition array_header :: "nat \<Rightarrow> nat \<Rightarrow> tree" where
  "array_header t d = Leaf [(''time'', t), (''distance'', d)]"

definition acquisition :: "tree list \<Rightarrow> tree" where
  "acquisition xs = Branch ''Acquisition'' (zip (map IntKey [0..<length xs]) xs)"

text \<open>The tree printed by cell 2: three cables on two nodes, one acquisition each.\<close>

definition multicable :: "nat \<Rightarrow> nat \<Rightarrow> nat \<Rightarrow> tree" where
  "multicable a b c =
     Branch ''Node''
       [(StrKey ''CCN'', Branch ''Cable''
           [(StrKey ''N'', acquisition [array_header a 9998])]),
        (StrKey ''SER'', Branch ''Cable''
           [(StrKey ''N'', acquisition [array_header b 10000]),
            (StrKey ''S'', acquisition [array_header c 10000])])]"

definition cell_01 :: cell where
  "cell_01 = Code (Some 1)
     [Import [(''numpy'', Some ''np'')],
      Import [(''xdas'', Some ''xd'')]]
     []"

definition cell_02 :: cell where
  "cell_02 = Code (Some 2)
     [Assign [Name ''dc'']
        (Call (Attribute (Name ''xd'') ''open_mfdatatree'')
           [Str ''data/gps_multicable/{node}/{cable}/[acquisition].hdf5'']
           [(''engine'', Str ''asn'')]),
      Expr (Name ''dc'')]
     [ExecuteResult 2 (CollectionRepr (multicable 37500 37500 37500))]"

definition cell_03 :: cell where
  "cell_03 = Code (Some 3)
     [Expr (Subscript (Subscript (Subscript (Name ''dc'') (Str ''CCN'')) (Str ''N'')) (Num 0))]
     [ExecuteResult 3 (ArrayRepr [(''time'', 37500), (''distance'', 9998)]
        [''VirtualStack: 715.1MB (int16)'',
         ''Coordinates:'',
         ''  * time (time): 2023-11-03T12:20:06.000 to 2023-11-03T12:30:05.984'',
         ''  * distance (distance): 0.000 to 153149.070''])]"

definition cell_04 :: cell where
  "cell_04 = Code (Some 4)
     [Assign [Name ''dc_set'']
        (Call (Attribute (Name ''dc'') ''copy'') [] [(''deep'', Bool True)]),
      Assign [Subscript (Subscript (Name ''dc_set'') (Str ''CCN'')) (Str ''S'')]
        (Call (Attribute (Subscript (Subscript (Name ''dc'') (Str ''CCN'')) (Str ''N''))
           ''copy'') [] []),
      Expr (Call
        (Attribute (Subscript (Subscript (Name ''dc_set'') (Str ''CCN'')) (Str ''S''))
           ''append'')
        [Call (Attribute
           (Subscript (Subscript (Subscript (Name ''dc'') (Str ''CCN'')) (Str ''N'')) (Num 0))
           ''copy'') [] []]
        []),
      Expr (Call (Attribute (Name ''dc_set'') ''update'')
        [DictLit [Str ''CAL'']
           [Call (Attribute (Subscript (Name ''dc'') (Str ''CCN'')) ''copy'') [] []]]
        []),
      Expr (Name ''dc_set'')]
     [ExecuteResult 4 (CollectionRepr
        (Branch ''Node''
          [(StrKey ''CCN'', Branch ''Cable''
              [(StrKey ''N'', acquisition [array_header 37500 9998]),
               (StrKey ''S'', acquisition [array_header 37500 9998, array_header 37500 9998])]),
           (StrKey ''SER'', Branch ''Cable''
              [(StrKey ''N'', acquisition [array_header 37500 10000]),
               (StrKey ''S'', acquisition [array_header 37500 10000])]),
           (StrKey ''CAL'', Branch ''Cable''
              [(StrKey ''N'', acquisition [array_header 37500 9998])])]))]"

definition cell_05 :: cell where
  "cell_05 = Code (Some 5)
     [For (Name ''node'') (Name ''dc'')
        [For (Name ''cable'') (Subscript (Name ''dc'') (Name ''node''))
           [For (Name ''da'')
              (Subscript (Subscript (Name ''dc'') (Name ''node'')) (Name ''cable''))
              [Expr Ellipsis]
              []]
           []]
        []]
     []"

definition cell_06 :: cell where
  "cell_06 = Code (Some 6)
     [Assign [Name ''dc_sel'']
        (sel_time (Name ''dc'') ''2023-11-03T12:26:40'' ''2023-11-03T12:27:50''),
      Expr (Name ''dc_sel'')]
     [ExecuteResult 6 (CollectionRepr (multicable 4376 4375 4376))]"

definition cell_07 :: cell where
  "cell_07 = Code (Some 7)
     [Expr (Call (Attribute (Name ''dc'') ''to_netcdf'') [Str ''outputs/multicable.nc''] [])]
     []"

definition cell_08 :: cell where
  "cell_08 = Code (Some 8)
     [Assign [Name ''da'']
        (Subscript (Subscript (Subscript (Name ''dc'') (Str ''SER'')) (Str ''N'')) (Num 0)),
      Expr (Call (Attribute (Name ''da'') ''to_netcdf'') [Str ''outputs/singlecable.nc''] [])]
     []"

definition cell_09 :: cell where
  "cell_09 = Code (Some 9)
     [Expr (Call (Attribute (Name ''xd'') ''DataCollection'')
        [ListLit
           [sel_time (Name ''da'') ''2023-11-03T12:23:35'' ''2023-11-03T12:24:00'',
            sel_time (Name ''da'') ''2023-11-03T12:26:40'' ''2023-11-03T12:27:50'']]
        [(''name'', Str ''event'')])]
     [ExecuteResult 9 (CollectionRepr
        (Branch ''Event''
          [(IntKey 0, array_header 1563 10000),
           (IntKey 1, array_header 4375 10000)]))]"

definition cell_10 :: cell where
  "cell_10 = Code (Some 10)
     [Expr (Call (Attribute (Name ''xd'') ''DataCollection'')
        [DictLit
           [Str ''id_000000'', Str ''id_000001'']
           [sel_time (Name ''da'') ''2023-11-03T12:23:35'' ''2023-11-03T12:24:00'',
            sel_time (Name ''da'') ''2023-11-03T12:26:40'' ''2023-11-03T12:27:50'']]
        [(''name'', Str ''event'')])]
     [ExecuteResult 10 (CollectionRepr
        (Branch ''Event''
          [(StrKey ''id_000000'', array_header 1563 10000),
           (StrKey ''id_000001'', array_header 4375 10000)]))]"

definition cell_11 :: cell where
  "cell_11 = Code (Some 11)
     [Expr (Call (Attribute (Name ''xd'') ''DataCollection'')
        [DictLit
           [Str ''id_000000'', Str ''id_000001'']
           [sel_time (Name ''dc'') ''2023-11-03T12:23:35'' ''2023-11-03T12:24:00'',
            sel_time (Name ''dc'') ''2023-11-03T12:26:40'' ''2023-11-03T12:27:50'']]
        [(''name'', Str ''event'')])]
     [ExecuteResult 11 (CollectionRepr
        (Branch ''Event''
          [(StrKey ''id_000000'', multicable 1563 1563 1563),
           (StrKey ''id_000001'', multicable 4376 4375 4376)]))]"

definition cell_12 :: cell where
  "cell_12 = Code (Some 12)
     [Shell ''ls data/gps_multiacq'']
     [Stream ''stdout''
        [''145505.hdf5  145615.hdf5  150041.hdf5  150151.hdf5  150301.hdf5  150440.hdf5'',
         ''145515.hdf5  145625.hdf5  150051.hdf5  150201.hdf5  150311.hdf5  150450.hdf5'',
         ''145525.hdf5  145635.hdf5  150101.hdf5  150211.hdf5  150321.hdf5'',
         ''145535.hdf5  150001.hdf5  150111.hdf5  150221.hdf5  150400.hdf5'',
         ''145545.hdf5  150011.hdf5  150121.hdf5  150231.hdf5  150410.hdf5'',
         ''145555.hdf5  150021.hdf5  150131.hdf5  150241.hdf5  150420.hdf5'',
         ''145605.hdf5  150031.hdf5  150141.hdf5  150251.hdf5  150430.hdf5'']]"

definition cell_13 :: cell where
  "cell_13 = Code (Some 13)
     [Assign [Name ''dc'']
        (Call (Attribute (Name ''xd'') ''open_mfdataarray'')
           [Str ''data/gps_multiacq/*.hdf5'']
           [(''engine'', Str ''asn'')]),
      Expr (Name ''dc'')]
     [ExecuteResult 13 (CollectionRepr
        (Branch ''Collection''
          [(IntKey 0, array_header 6250 9998),
           (IntKey 1, array_header 21000 6666),
           (IntKey 2, array_header 6000 24994)]))]"

definition cell_14 :: cell where
  "cell_14 = Code (Some 14)
     [Import [(''xdas.signal'', Some ''xs'')],
      Expr (Call (Name ''print'') [Str ''#  dt     dx''] []),
      Expr (Call (Name ''print'') [Str ''------------''] []),
      For (TupleLit [Name ''acq'', Name ''da''])
        (Call (Name ''enumerate'') [Name ''dc''] [])
        [Assign [Name ''dt'']
           (Call (Attribute (Name ''xs'') ''get_sampling_interval'')
              [Name ''da'', Str ''time''] []),
         Assign [Name ''dx'']
           (Call (Attribute (Name ''xs'') ''get_sampling_interval'')
              [Name ''da'', Str ''distance''] []),
         Expr (Call (Name ''print'')
           [JoinedStr
              [FormattedValue (Name ''acq'') [],
               Str ''  '',
               FormattedValue (BinOp (Name ''dt'') ''*'' (Num 1000)) ''>2.0f'',
               Str ''ms  '',
               FormattedValue (Name ''dx'') ''>2.0f'',
               Str ''m '']]
           [])]
        []]
     [Stream ''stdout''
        [''#  dt     dx'',
         ''------------'',
         ''0  16ms  15m '',
         ''1  10ms  15m '',
         ''2  10ms   4m '']]"

text \<open>The notebook in document order, markdown cells between the code cells.\<close>

definition link_multi_acquisitions :: notebook where
  "link_multi_acquisitions =
     [Markdown [''# Prepare your data: Multiple acquisitions''],
      cell_01,
      Markdown [''## 1. Multi-instrument acquisitions'', ''### Preparing the data''],
      cell_02,
      Markdown [''## Working with DataCollection objects'', ''### Getting and element''],
      cell_03,
      Markdown [''### Setting new elements''],
      cell_04,
      Markdown [''### Iterating''],
      cell_05,
      Markdown [''### Label-based indexing''],
      cell_06,
      Markdown [''### Saved linked collection to disk''],
      cell_07,
      Markdown [''## 2. Collection of events''],
      Markdown [],
      cell_08,
      Markdown [''### As a DataSequence object''],
      cell_09,
      Markdown [''### As a DataMapping object''],
      cell_10,
      Markdown [''### Combining everything''],
      cell_11,
      Markdown [''## 3. Changes in acquisition parameters''],
      cell_12,
      Markdown [],
      cell_13,
      Markdown [],
      cell_14]"

text \<open>
  The second notebook file of the repository (its name is not known) holds the same cells
  up to cell 11, outputs included, and stops there.
\<close>

definition notebook_part_000 :: notebook where
  "notebook_part_000 =
     [Markdown [''# Prepare your data: Multiple acquisitions''],
      cell_01,
      Markdown [''## 1. Multi-instrument acquisitions'', ''### Preparing the data''],
      cell_02,
      Markdown [''## Working with DataCollection objects'', ''### Getting and element''],
      cell_03,
      Markdown [''### Setting new elements''],
      cell_04,
      Markdown [''### Iterating''],
      cell_05,
      Markdown [''### Label-based indexing''],
      cell_06,
      Markdown [''### Saved linked collection to disk''],
      cell_07,
      Markdown [''## 2. Collection of events''],
      Markdown [],
      cell_08,
      Markdown [''### As a DataSequence object''],
      cell_09,
      Markdown [''### As a DataMapping object''],
      cell_10,
      Markdown [''### Combining everything''],
      cell_11]"

section \<open>README documents\<close>

text \<open>
  A README is kept by its headings (with their level) and its fenced blocks, line by
  line; the prose and the badge between them hold no instruction.
\<close>

datatype md_block =
    Heading nat string
  | Fenced "string list"

type_synonym readme = "md_block list"

definition readme_md :: readme where
  "readme_md =
     [Heading 1 ''Welcome to the Xdas tutorial series!'',
      Heading 2 ''Overview'',
      Heading 2 ''Setup the tutorial environment'',
      Heading 3 ''Get the source code'',
      Fenced [''git clone https://github.com/xdas-dev/tutorials.git'', ''cd tutorials''],
      Fenced [''git reset --hard HEAD''],
      Fenced [''git pull''],
      Heading 3 ''Creating a dedicated environment'',
      Fenced [''conda config --add channels conda-forge'',
              ''conda create -n xdas-tutorials'',
              ''conda activate xdas-tutorials'',
              ''conda install pip --yes''],
      Heading 3 ''Installing Xdas'',
      Fenced [''pip install xdas''],
      Heading 3 ''Additional dependencies'',
      Fenced [''pip install notebook seisbench''],
      Heading 3 ''Download Data samples'',
      Fenced [''wget https://zenodo.org/records/11212055/files/data.zip'',
              ''unzip data.zip'',
              ''rm -rf outputs'',
              ''mkdir -p outputs'']]"

definition readme_part_001 :: readme where
  "readme_part_001 =
     [Heading 1 ''Welcome to the Xdas tutorial series!'',
      Heading 2 ''Overview'',
      Heading 2 ''Setup the tutorial environment'',
      Heading 3 ''Get the source code'',
      Fenced [''git clone git@github.com:xdas-dev/tutorials.git''],
      Heading 3 ''Creating a dedicated environment'',
      Fenced [''conda config --add channels conda-forge'',
              ''conda create -n xdas-tutorials'',
              ''conda activate xdas-tutorials'',
              ''conda install pip --yes''],
      Heading 3 ''Installing Xdas'',
      Fenced [''pip install xdas==0.1rc1''],
      Heading 3 ''Additional dependencies'',
      Fenced [''pip install seisbench''],
      Heading 3 ''Download Data samples'',
      Fenced [''wget <url>'',
              ''unzip <path>'',
              ''rm <zip>'',
              ''rm -rf outputs'',
              ''mkdir -p outputs'']]"

definition readme_part_002 :: readme where
  "readme_part_002 =
     [Heading 1 ''Xdas Python Tutorial Series'',
      Heading 2 ''Introduction'',
      Heading 2 ''Getting Started'',
      Fenced [''pip install xdas''],
      Heading 2 ''Tutorials'',
      Heading 2 ''Contributing'',
      Heading 2 ''License'']"

text \<open>The five source files of the repository.\<close>

datatype source_file =
    NotebookFile string notebook
  | ReadmeFile string readme

definition repository :: "source_file list" where
  "repository =
     [NotebookFile ''02_link_multi_acquisitions.ipynb'' link_multi_acquisitions,
      ReadmeFile ''README.md'' readme_md,
      NotebookFile ''unnamed/part_000'' notebook_part_000,
      ReadmeFile ''unnamed/part_001'' readme_part_001,
      ReadmeFile ''unnamed/part_002'' readme_part_002]"

section \<open>Walking the syntax\<close>

text \<open>Every node of an expression, the expression itself first.\<close>

fun subexprs :: "expr \<Rightarrow> expr list" where
  "subexprs (Name x) = [Name x]"
| "subexprs (Attribute e a) = Attribute e a # subexprs e"
| "subexprs (Subscript e i) = Subscript e i # subexprs e @ subexprs i"
| "subexprs (Call f as ks) =
     Call f as ks # subexprs f @ concat (map subexprs as)
       @ concat (map (\<lambda>(k, v). subexprs v) ks)"
| "subexprs (Str s) = [Str s]"
| "subexprs (Num n) = [Num n]"
| "subexprs (Bool b) = [Bool b]"
| "subexprs Ellipsis = [Ellipsis]"
| "subexprs (ListLit es) = ListLit es # concat (map subexprs es)"
| "subexprs (TupleLit es) = TupleLit es # concat (map subexprs es)"
| "subexprs (DictLit ks vs) =
     DictLit ks vs # concat (map subexprs ks) @ concat (map subexprs vs)"
| "subexprs (BinOp l opr r) = BinOp l opr r # subexprs l @ subexprs r"
| "subexprs (JoinedStr es) = JoinedStr es # concat (map subexprs es)"
| "subexprs (FormattedValue e f) = FormattedValue e f # subexprs e"
| "subexprs (Lambda ps e) = Lambda ps e # subexprs e"
| "subexprs (IfExp c a b) = IfExp c a b # subexprs c @ subexprs a @ subexprs b"
| "subexprs (Await e) = Await e # subexprs e"

fun opt_list :: "'a option \<Rightarrow> 'a list" where
  "opt_list None = []"
| "opt_list (Some x) = [x]"

text \<open>The expressions a statement holds itself, not those of the statements nested in it.\<close>

fun exprs_of :: "stmt \<Rightarrow> expr list" where
  "exprs_of (Import ns) = []"
| "exprs_of (ImportFrom m ns) = []"
| "exprs_of (Assign ts v) = ts @ [v]"
| "exprs_of (Expr e) = [e]"
| "exprs_of (For t i body orelse) = [t, i]"
| "exprs_of (While c body orelse) = [c]"
| "exprs_of (If c body orelse) = [c]"
| "exprs_of (With items body) = items"
| "exprs_of (Try body handlers orelse final) = []"
| "exprs_of (ExceptHandler ty body) = opt_list ty"
| "exprs_of (Raise e) = opt_list e"
| "exprs_of (Return e) = opt_list e"
| "exprs_of Pass = []"
| "exprs_of (FunctionDef f ps body) = []"
| "exprs_of (ClassDef c bases body) = bases"
| "exprs_of (AsyncFunctionDef f ps body) = []"
| "exprs_of (AsyncFor t i body orelse) = [t, i]"
| "exprs_of (AsyncWith items body) = items"
| "exprs_of (Shell cmd) = []"

text \<open>Every statement of a statement, itself first, then the nested ones in order.\<close>

fun substmts :: "stmt \<Rightarrow> stmt list" where
  "substmts (For t i body orelse) =
     For t i body orelse # concat (map substmts body) @ concat (map substmts orelse)"
| "substmts (While c body orelse) =
     While c body orelse # concat (map substmts body) @ concat (map substmts orelse)"
| "substmts (If c body orelse) =
     If c body orelse # concat (map substmts body) @ concat (map substmts orelse)"
| "substmts (With items body) = With items body # concat (map substmts body)"
| "substmts (Try body handlers orelse final) =
     Try body handlers orelse final # concat (map substmts body)
       @ concat (map substmts handlers) @ concat (map substmts orelse)
       @ concat (map substmts final)"
| "substmts (ExceptHandler ty body) = ExceptHandler ty body # concat (map substmts body)"
| "substmts (FunctionDef f ps body) = FunctionDef f ps body # concat (map substmts body)"
| "substmts (ClassDef c bases body) = ClassDef c bases body # concat (map substmts body)"
| "substmts (AsyncFunctionDef f ps body) =
     AsyncFunctionDef f ps body # concat (map substmts body)"
| "substmts (AsyncFor t i body orelse) =
     AsyncFor t i body orelse # concat (map substmts body) @ concat (map substmts orelse)"
| "substmts (AsyncWith items body) = AsyncWith items body # concat (map substmts body)"
| "substmts s = [s]"

definition cell_stmts :: "cell \<Rightarrow> stmt list" where
  "cell_stmts c = concat (map substmts (source c))"

definition cell_exprs :: "cell \<Rightarrow> expr list" where
  "cell_exprs c = concat (map subexprs (concat (map exprs_of (cell_stmts c))))"

section \<open>Kinds of constructs\<close>

fun is_definition :: "stmt \<Rightarrow> bool" where
  "is_definition (FunctionDef f ps body) = True"
| "is_definition (AsyncFunctionDef f ps body) = True"
| "is_definition (ClassDef c bases body) = True"
| "is_definition s = False"

fun is_lambda :: "expr \<Rightarrow> bool" where
  "is_lambda (Lambda ps e) = True"
| "is_lambda e = False"

fun is_for :: "stmt \<Rightarrow> bool" where
  "is_for (For t i body orelse) = True"
| "is_for s = False"

text \<open>
  Control constructs: loops, branches, and the statements that handle or signal failure
  (try, except, raise, with).
\<close>

fun is_loop :: "stmt \<Rightarrow> bool" where
  "is_loop (For t i body orelse) = True"
| "is_loop (While c body orelse) = True"
| "is_loop (AsyncFor t i body orelse) = True"
| "is_loop s = False"

fun is_branch :: "stmt \<Rightarrow> bool" where
  "is_branch (If c body orelse) = True"
| "is_branch s = False"

fun is_ifexp :: "expr \<Rightarrow> bool" where
  "is_ifexp (IfExp c a b) = True"
| "is_ifexp e = False"

fun is_error_handling :: "stmt \<Rightarrow> bool" where
  "is_error_handling (Try body handlers orelse final) = True"
| "is_error_handling (ExceptHandler ty body) = True"
| "is_error_handling (Raise e) = True"
| "is_error_handling (With items body) = True"
| "is_error_handling (AsyncWith items body) = True"
| "is_error_handling s = False"

fun is_async :: "stmt \<Rightarrow> bool" where
  "is_async (AsyncFunctionDef f ps body) = True"
| "is_async (AsyncFor t i body orelse) = True"
| "is_async (AsyncWith items body) = True"
| "is_async s = False"

fun is_await :: "expr \<Rightarrow> bool" where
  "is_await (Await e) = True"
| "is_await e = False"

fun is_operator :: "expr \<Rightarrow> bool" where
  "is_operator (BinOp l opr r) = True"
| "is_operator e = False"

fun shell_command :: "stmt \<Rightarrow> string list" where
  "shell_command (Shell cmd) = [cmd]"
| "shell_command s = []"

fun imported :: "stmt \<Rightarrow> (string \<times> string option) list" where
  "imported (Import ns) = ns"
| "imported (ImportFrom m ns) = [(m, None)]"
| "imported s = []"

definition shell_commands :: "cell \<Rightarrow> string list" where
  "shell_commands c = concat (map shell_command (cell_stmts c))"

definition imports_of :: "notebook \<Rightarrow> (string \<times> string option) list" where
  "imports_of nb = concat (map imported (concat (map cell_stmts nb)))"

section \<open>Calls\<close>

text \<open>
  The name an expression starts from: \<^verbatim>\<open>dc["CCN"]["N"].copy\<close> starts from
  \<^verbatim>\<open>dc\<close>. A call is plain (\<^verbatim>\<open>print(...)\<close>, a bare name, which in these cells is
  always a Python builtin), dotted (\<^verbatim>\<open>xd.open_mfdatatree(...)\<close>,
  \<^verbatim>\<open>dc.sel(...)\<close>: a module function or a method, with the name it starts from), or
  computed.
\<close>

fun root_name :: "expr \<Rightarrow> string option" where
  "root_name (Name x) = Some x"
| "root_name (Attribute e a) = root_name e"
| "root_name (Subscript e i) = root_name e"
| "root_name (Call f as ks) = root_name f"
| "root_name e = None"

datatype callee = Plain string | Dotted string string | Computed

fun callee_of :: "expr \<Rightarrow> callee list" where
  "callee_of (Call (Name f) as ks) = [Plain f]"
| "callee_of (Call (Attribute e a) as ks) =
     [case root_name e of Some r \<Rightarrow> Dotted r a | None \<Rightarrow> Computed]"
| "callee_of (Call f as ks) = [Computed]"
| "callee_of e = []"

definition calls :: "cell \<Rightarrow> callee list" where
  "calls c = concat (map callee_of (cell_exprs c))"

fun is_dotted :: "callee \<Rightarrow> bool" where
  "is_dotted (Dotted r a) = True"
| "is_dotted c = False"

fun starts_with :: "string \<Rightarrow> string \<Rightarrow> bool" where
  "starts_with [] s = True"
| "starts_with (p # ps) [] = False"
| "starts_with (p # ps) (c # cs) = (p = c \<and> starts_with ps cs)"

text \<open>The names under which the notebook imports xdas or one of its submodules.\<close>

fun xdas_alias :: "string \<times> string option \<Rightarrow> string list" where
  "xdas_alias (m, Some a) = (if m = ''xdas'' \<or> starts_with ''xdas.'' m then [a] else [])"
| "xdas_alias (m, None) = (if m = ''xdas'' then [m] else [])"

definition xdas_aliases :: "notebook \<Rightarrow> string list" where
  "xdas_aliases nb = concat (map xdas_alias (imports_of nb))"

fun library_function :: "string list \<Rightarrow> callee \<Rightarrow> string list" where
  "library_function al (Dotted r a) = (if r \<in> set al then [a] else [])"
| "library_function al c = []"

fun method_call :: "string list \<Rightarrow> callee \<Rightarrow> (string \<times> string) list" where
  "method_call al (Dotted r a) = (if r \<in> set al then [] else [(r, a)])"
| "method_call al c = []"

fun builtin_call :: "callee \<Rightarrow> string list" where
  "builtin_call (Plain f) = [f]"
| "builtin_call c = []"

definition all_calls :: "notebook \<Rightarrow> callee list" where
  "all_calls nb = concat (map calls (code_cells nb))"

section \<open>Properties of cells\<close>

definition defines_nothing :: "cell \<Rightarrow> bool" where
  "defines_nothing c =
     (\<not> list_ex is_definition (cell_stmts c) \<and> \<not> list_ex is_lambda (cell_exprs c))"

text \<open>
  A cell that does nothing but call the library: no definition, no shell command, and
  every call dotted.
\<close>

definition library_only :: "cell \<Rightarrow> bool" where
  "library_only c =
     (defines_nothing c \<and> shell_commands c = [] \<and> list_all is_dotted (calls c))"

definition is_control :: "stmt \<Rightarrow> bool" where
  "is_control s = (is_loop s \<or> is_branch s \<or> is_error_handling s)"

definition straight_line :: "cell \<Rightarrow> bool" where
  "straight_line c =
     (\<not> list_ex is_control (cell_stmts c) \<and> \<not> list_ex is_ifexp (cell_exprs c))"

definition handles_errors :: "cell \<Rightarrow> bool" where
  "handles_errors c = list_ex is_error_handling (cell_stmts c)"

fun is_error :: "cell_output \<Rightarrow> bool" where
  "is_error (Error ename evalue) = True"
| "is_error out = False"

definition raised :: "cell \<Rightarrow> bool" where
  "raised c = list_ex is_error (outputs c)"

definition concurrent :: "cell \<Rightarrow> bool" where
  "concurrent c = (list_ex is_async (cell_stmts c) \<or> list_ex is_await (cell_exprs c))"

section \<open>Arrays shown in the outputs\<close>

fun leaves :: "tree \<Rightarrow> dims list" where
  "leaves (Leaf d) = [d]"
| "leaves (Branch nm kts) = concat (map (\<lambda>(k, t). leaves t) kts)"

fun arrays_of_display :: "display \<Rightarrow> dims list" where
  "arrays_of_display (CollectionRepr t) = leaves t"
| "arrays_of_display (ArrayRepr d extra) = [d]"

fun arrays_of_output :: "cell_output \<Rightarrow> dims list" where
  "arrays_of_output (ExecuteResult n d) = arrays_of_display d"
| "arrays_of_output out = []"

definition arrays_shown :: "cell \<Rightarrow> dims list" where
  "arrays_shown c = concat (map arrays_of_output (outputs c))"

definition time_by_distance :: "dims \<Rightarrow> bool" where
  "time_by_distance d = (map fst d = [''time'', ''distance''])"

text \<open>Arrays of more than one shape in the output of one cell.\<close>

definition mismatched_shapes :: "cell \<Rightarrow> bool" where
  "mismatched_shapes c = (1 < length (remdups (arrays_shown c)))"

section \<open>Properties of files\<close>

fun fenced_lines :: "md_block \<Rightarrow> string list" where
  "fenced_lines (Fenced ls) = ls"
| "fenced_lines (Heading l t) = []"

definition python_definition_line :: "string \<Rightarrow> bool" where
  "python_definition_line l =
     (starts_with ''def '' l \<or> starts_with ''class '' l \<or> starts_with ''async def '' l)"

fun authors_nothing :: "source_file \<Rightarrow> bool" where
  "authors_nothing (NotebookFile nm nb) = list_all defines_nothing (code_cells nb)"
| "authors_nothing (ReadmeFile nm r) =
     (\<not> list_ex python_definition_line (concat (map fenced_lines r)))"

datatype file_kind = Notebook | Readme

fun kind_of :: "source_file \<Rightarrow> file_kind" where
  "kind_of (NotebookFile nm nb) = Notebook"
| "kind_of (ReadmeFile nm r) = Readme"

text \<open>
  The body of the section with a given heading: the blocks after it, up to the next
  heading of the same or a higher level.
\<close>

fun heading_upto :: "nat \<Rightarrow> md_block \<Rightarrow> bool" where
  "heading_upto n (Heading l t) = (l \<le> n)"
| "heading_upto n (Fenced ls) = False"

definition section_body :: "nat \<Rightarrow> string \<Rightarrow> md_block list \<Rightarrow> md_block list" where
  "section_body l title bs =
     takeWhile (\<lambda>b. \<not> heading_upto l b) (drop 1 (dropWhile (\<lambda>b. b \<noteq> Heading l title) bs))"

fun heading_title :: "nat \<Rightarrow> md_block \<Rightarrow> string list" where
  "heading_title n (Heading l t) = (if l = n then [t] else [])"
| "heading_title n (Fenced ls) = []"

definition setup_section :: "readme \<Rightarrow> md_block list" where
  "setup_section r = section_body 2 ''Setup the tutorial environment'' r"

definition setup_parts :: "readme \<Rightarrow> string list" where
  "setup_parts r = concat (map (heading_title 3) (setup_section r))"

definition part_commands :: "readme \<Rightarrow> string \<Rightarrow> string list" where
  "part_commands r title = concat (map fenced_lines (section_body 3 title (setup_section r)))"

definition setup_commands :: "readme \<Rightarrow> string list" where
  "setup_commands r = concat (map fenced_lines (setup_section r))"

text \<open>The program a command line runs: its first word.\<close>

definition program :: "string \<Rightarrow> string" where
  "program cmd = takeWhile (\<lambda>c. c \<noteq> CHR '' '') cmd"

text \<open>
  The programs of the three concerns: \<^verbatim>\<open>conda\<close> creates the environment,
  \<^verbatim>\<open>pip\<close> installs packages, \<^verbatim>\<open>wget\<close> downloads the samples, which
  \<^verbatim>\<open>unzip\<close>, \<^verbatim>\<open>rm\<close> and \<^verbatim>\<open>mkdir\<close> then unpack beside a fresh
  output directory.
\<close>

definition three_concerns :: "string list" where
  "three_concerns = [''conda'', ''pip'', ''wget'', ''unzip'', ''rm'', ''mkdir'']"

definition only_three_concerns :: "readme \<Rightarrow> bool" where
  "only_three_concerns r =
     list_all (\<lambda>cmd. program cmd \<in> set three_concerns) (setup_commands r)"

text \<open>The execution counts of the code cells, in document order.\<close>

definition execution_numbers :: "notebook \<Rightarrow> nat list" where
  "execution_numbers nb = concat (map (\<lambda>c. opt_list (execution_count c)) (code_cells nb))"

section \<open>The text of the outputs\<close>

text \<open>
  The text a recorded output shows, line by line, printed back from its embedding. The
  layout is the one of the notebook file: a level is its name and a colon, an entry is
  indented by two more blanks and is its key, a colon and a blank, followed on the same
  line by the array header or on the next lines by the nested level, indented by four.
\<close>

definition digit :: "nat \<Rightarrow> char" where
  "digit n = ''0123456789'' ! n"

fun string_of_nat :: "nat \<Rightarrow> string" where
  "string_of_nat n =
     (if n < 10 then [digit n] else string_of_nat (n div 10) @ [digit (n mod 10)])"

declare string_of_nat.simps [simp del]

fun show_key :: "key \<Rightarrow> string" where
  "show_key (IntKey n) = string_of_nat n"
| "show_key (StrKey s) = s"

fun show_dims :: "dims \<Rightarrow> string" where
  "show_dims [] = []"
| "show_dims [(n, s)] = n @ '': '' @ string_of_nat s"
| "show_dims ((n, s) # d # ds) = n @ '': '' @ string_of_nat s @ '', '' @ show_dims (d # ds)"

definition header :: "dims \<Rightarrow> string" where
  "header d = ''<xdas.DataArray ('' @ show_dims d @ '')>''"

definition indent :: "nat \<Rightarrow> string" where
  "indent n = replicate n CHR '' ''"

fun render :: "nat \<Rightarrow> tree \<Rightarrow> string list" where
  "render i (Leaf d) = [indent i @ header d]"
| "render i (Branch nm kts) =
     (indent i @ nm @ '':'')
     # concat (map (\<lambda>(k, t).
         case t of
           Leaf d \<Rightarrow> [indent (i + 2) @ show_key k @ '': '' @ header d]
         | Branch nm' kts' \<Rightarrow> (indent (i + 2) @ show_key k @ '': '') # render (i + 4) t) kts)"

fun display_lines :: "display \<Rightarrow> string list" where
  "display_lines (CollectionRepr t) = render 0 t"
| "display_lines (ArrayRepr d extra) = header d # extra"

fun result_lines :: "cell_output \<Rightarrow> string list" where
  "result_lines (ExecuteResult n d) = display_lines d"
| "result_lines (Stream nm ls) = ls"
| "result_lines (Error en ev) = []"

definition printed :: "cell \<Rightarrow> string list" where
  "printed c = concat (map result_lines (outputs c))"

section \<open>Structure of a printed collection\<close>

fun shown_tree :: "cell_output \<Rightarrow> tree list" where
  "shown_tree (ExecuteResult n (CollectionRepr t)) = [t]"
| "shown_tree out = []"

text \<open>The collections a cell shows.\<close>

definition shown :: "cell \<Rightarrow> tree list" where
  "shown c = concat (map shown_tree (outputs c))"

fun top_keys :: "tree \<Rightarrow> key list" where
  "top_keys (Branch nm kts) = map fst kts"
| "top_keys (Leaf d) = []"

fun entries :: "tree \<Rightarrow> tree list" where
  "entries (Branch nm kts) = map snd kts"
| "entries (Leaf d) = []"

fun is_leaf :: "tree \<Rightarrow> bool" where
  "is_leaf (Leaf d) = True"
| "is_leaf (Branch nm kts) = False"

text \<open>The entry of a collection at a path of keys.\<close>

fun lookup :: "key list \<Rightarrow> tree \<Rightarrow> tree option" where
  "lookup [] t = Some t"
| "lookup (k # ks) (Leaf d) = None"
| "lookup (k # ks) (Branch nm kts) =
     (case map_of kts k of None \<Rightarrow> None | Some t \<Rightarrow> lookup ks t)"

text \<open>
  The structure of a collection: its names, keys and nesting, and the names of the
  dimensions of its arrays, with every size forgotten.
\<close>

fun skeleton :: "tree \<Rightarrow> tree" where
  "skeleton (Leaf d) = Leaf (map (\<lambda>(n, s). (n, 0)) d)"
| "skeleton (Branch nm kts) = Branch nm (map (\<lambda>(k, t). (k, skeleton t)) kts)"

definition dim_size :: "string \<Rightarrow> dims \<Rightarrow> nat option" where
  "dim_size n d = map_of d n"

text \<open>
  An array after a selection in time, against the array before it: the same dimensions,
  the same size in distance, a smaller size in time.
\<close>

definition only_time_reduced :: "dims \<Rightarrow> dims \<Rightarrow> bool" where
  "only_time_reduced earlier later =
     (map fst later = map fst earlier
      \<and> dim_size ''distance'' later = dim_size ''distance'' earlier
      \<and> (case (dim_size ''time'' earlier, dim_size ''time'' later) of
           (Some b, Some a) \<Rightarrow> a < b
         | other \<Rightarrow> False))"

definition selected_in_time :: "tree \<Rightarrow> tree \<Rightarrow> bool" where
  "selected_in_time earlier later =
     (skeleton later = skeleton earlier
      \<and> list_all2 only_time_reduced (leaves earlier) (leaves later))"

section \<open>Names bound and objects mutated\<close>

fun target_names :: "expr \<Rightarrow> string list" where
  "target_names (Name x) = [x]"
| "target_names (TupleLit es) = concat (map target_names es)"
| "target_names (ListLit es) = concat (map target_names es)"
| "target_names e = []"

fun alias_name :: "string \<times> string option \<Rightarrow> string" where
  "alias_name (m, Some a) = a"
| "alias_name (m, None) = takeWhile (\<lambda>c. c \<noteq> CHR ''.'') m"

text \<open>The names a statement binds: assignment targets, loop variables, import aliases.\<close>

fun binds :: "stmt \<Rightarrow> string list" where
  "binds (Assign ts v) = concat (map target_names ts)"
| "binds (For t i body orelse) = target_names t"
| "binds (AsyncFor t i body orelse) = target_names t"
| "binds (Import ns) = map alias_name ns"
| "binds (ImportFrom m ns) = map alias_name ns"
| "binds (FunctionDef f ps body) = [f]"
| "binds (AsyncFunctionDef f ps body) = [f]"
| "binds (ClassDef c bases body) = [c]"
| "binds s = []"

definition rebinds :: "cell \<Rightarrow> string list" where
  "rebinds c = concat (map binds (cell_stmts c))"

text \<open>
  The objects a cell changes in place, by the name their expression starts from: the
  target of an assignment to a subscript or an attribute, and the receiver of a call of
  one of the methods by which a Python list or dict changes.
\<close>

definition mutating_methods :: "string list" where
  "mutating_methods =
     [''append'', ''extend'', ''insert'', ''remove'', ''pop'', ''clear'', ''sort'',
      ''reverse'', ''update'', ''setdefault'', ''popitem'']"

fun stored_into :: "expr \<Rightarrow> string list" where
  "stored_into (Subscript e i) = opt_list (root_name e)"
| "stored_into (Attribute e a) = opt_list (root_name e)"
| "stored_into e = []"

fun store_targets :: "stmt \<Rightarrow> string list" where
  "store_targets (Assign ts v) = concat (map stored_into ts)"
| "store_targets s = []"

fun mutating_call :: "expr \<Rightarrow> string list" where
  "mutating_call (Call (Attribute e a) as ks) =
     (if a \<in> set mutating_methods then opt_list (root_name e) else [])"
| "mutating_call e = []"

definition mutated :: "cell \<Rightarrow> string list" where
  "mutated c =
     concat (map store_targets (cell_stmts c)) @ concat (map mutating_call (cell_exprs c))"

definition cells_between :: "notebook \<Rightarrow> nat \<Rightarrow> nat \<Rightarrow> cell list" where
  "cells_between nb lo hi =
     filter (\<lambda>c. case execution_count c of Some n \<Rightarrow> lo \<le> n \<and> n \<le> hi | None \<Rightarrow> False) nb"

section \<open>The collection constructor\<close>

text \<open>
  Modelled from the spec: \<^verbatim>\<open>xd.DataCollection\<close>, the constructor of the external
  xdas library, whose code is not part of the repository. The specification calls a
  DataCollection a nested container, dictionary-like or list-like, for grouping DataArray
  instances; the notebook adds that the two flavours are \<^verbatim>\<open>DataMapping\<close>, which
  behaves as a dict, and \<^verbatim>\<open>DataSequence\<close>, which behaves as a list, that passing a
  list gives a DataSequence and passing a dict gives a DataMapping, and that an element
  may itself be a DataCollection. A collection carries the name given at construction.
\<close>

datatype collection =
    DataArray dims
  | DataSequence string "collection list"
  | DataMapping string "(string \<times> collection) list"

datatype py_value =
    PyList "collection list"
  | PyDict "(string \<times> collection) list"

text \<open>
  Modelled from the spec: the call \<^verbatim>\<open>xd.DataCollection(data, name=...)\<close> of the
  external library. The notebook says of it: passing a list gives a DataSequence, passing
  a dict gives a DataMapping.
\<close>

fun DataCollection :: "py_value \<Rightarrow> string \<Rightarrow> collection" where
  "DataCollection (PyList xs) nm = DataSequence nm xs"
| "DataCollection (PyDict kvs) nm = DataMapping nm kvs"

text \<open>The keys under which the elements are reached, and the elements.\<close>

fun keys :: "collection \<Rightarrow> key list" where
  "keys (DataArray d) = []"
| "keys (DataSequence nm xs) = map IntKey [0..<length xs]"
| "keys (DataMapping nm kvs) = map (\<lambda>(k, v). StrKey k) kvs"

fun elements :: "collection \<Rightarrow> collection list" where
  "elements (DataArray d) = []"
| "elements (DataSequence nm xs) = xs"
| "elements (DataMapping nm kvs) = map snd kvs"

fun is_sequence :: "collection \<Rightarrow> bool" where
  "is_sequence (DataSequence nm xs) = True"
| "is_sequence c = False"

fun is_mapping :: "collection \<Rightarrow> bool" where
  "is_mapping (DataMapping nm kvs) = True"
| "is_mapping c = False"

text \<open>
  The printed form of a collection: the name with its first letter in upper case, each
  element under its key.
\<close>

definition upper :: "char \<Rightarrow> char" where
  "upper c =
     (case map_of (zip ''abcdefghijklmnopqrstuvwxyz'' ''ABCDEFGHIJKLMNOPQRSTUVWXYZ'') c of
        Some u \<Rightarrow> u
      | None \<Rightarrow> c)"

fun capitalize :: "string \<Rightarrow> string" where
  "capitalize [] = []"
| "capitalize (c # cs) = upper c # cs"

fun repr :: "collection \<Rightarrow> tree" where
  "repr (DataArray d) = Leaf d"
| "repr (DataSequence nm xs) =
     Branch (capitalize nm) (zip (map IntKey [0..<length xs]) (map repr xs))"
| "repr (DataMapping nm kvs) =
     Branch (capitalize nm) (map (\<lambda>(k, v). (StrKey k, repr v)) kvs)"

text \<open>
  The collection that \<^verbatim>\<open>open_mfdatatree\<close> returns in cell 2, and its selections, with
  the names of the path pattern \<^verbatim>\<open>{node}/{cable}/[acquisition]\<close>.
\<close>

definition time_distance :: "nat \<Rightarrow> nat \<Rightarrow> collection" where
  "time_distance t d = DataArray [(''time'', t), (''distance'', d)]"

definition multicable_collection :: "nat \<Rightarrow> nat \<Rightarrow> nat \<Rightarrow> collection" where
  "multicable_collection a b c =
     DataMapping ''node''
       [(''CCN'', DataMapping ''cable''
           [(''N'', DataSequence ''acquisition'' [time_distance a 9998])]),
        (''SER'', DataMapping ''cable''
           [(''N'', DataSequence ''acquisition'' [time_distance b 10000]),
            (''S'', DataSequence ''acquisition'' [time_distance c 10000])])]"

text \<open>
  The keys that the literal passed to \<^verbatim>\<open>xd.DataCollection\<close> in a cell announces: the
  positions of a list literal, the string keys of a dict literal.
\<close>

fun str_key :: "expr \<Rightarrow> key list" where
  "str_key (Str s) = [StrKey s]"
| "str_key e = []"

fun literal_keys :: "expr \<Rightarrow> key list list" where
  "literal_keys (ListLit es) = [map IntKey [0..<length es]]"
| "literal_keys (DictLit ks vs) = [concat (map str_key ks)]"
| "literal_keys e = []"

fun constructed :: "stmt \<Rightarrow> key list list" where
  "constructed (Expr (Call (Attribute (Name m) f) (a # as) ks)) =
     (if m = ''xd'' \<and> f = ''DataCollection'' then literal_keys a else [])"
| "constructed s = []"

section \<open>Opening several files\<close>

text \<open>
  Modelled from the spec: \<^verbatim>\<open>xd.open_mfdataarray\<close> of the external xdas library,
  whose code is not part of the repository. Its argument here is what the files found
  under the path amount to: one entry, the dimensions of the merged array, for each run of
  files with the same coordinate information, and no entry when no file is found. The
  specification says that missing files come to the user as an exception of the library.
  The notebook says that files whose chunks have different shapes cannot be merged in a
  unique DataArray, and that a DataSequence is returned whenever files with different
  coordinate information are opened together; the sequence of cell 13 prints under the
  name \<^verbatim>\<open>Collection\<close>.
\<close>

datatype library_exception = FileNotFound

fun open_mfdataarray :: "dims list \<Rightarrow> library_exception + collection" where
  "open_mfdataarray [] = Inl FileNotFound"
| "open_mfdataarray [d] = Inr (DataArray d)"
| "open_mfdataarray (d # e # ds) = Inr (DataSequence ''collection'' (map DataArray (d # e # ds)))"

section \<open>Instants and windows\<close>











section \<open>Arrays with their time labels\<close>






section \<open>Selection by time labels\<close>













section \<open>Unfolding the embedding\<close>

lemmas cell_defs =
  cell_01_def cell_02_def cell_03_def cell_04_def cell_05_def cell_06_def cell_07_def
  cell_08_def cell_09_def cell_10_def cell_11_def cell_12_def cell_13_def cell_14_def

lemmas embedding_defs =
  link_multi_acquisitions_def notebook_part_000_def cell_defs repository_def
  readme_md_def readme_part_001_def readme_part_002_def
  code_cells_def cell_numbered_def time_slice_def sel_time_def array_header_def
  acquisition_def multicable_def cell_stmts_def cell_exprs_def shell_commands_def
  imports_of_def calls_def xdas_aliases_def all_calls_def defines_nothing_def
  library_only_def is_control_def straight_line_def handles_errors_def raised_def
  concurrent_def arrays_shown_def time_by_distance_def mismatched_shapes_def
  python_definition_line_def section_body_def setup_section_def setup_parts_def
  part_commands_def setup_commands_def program_def three_concerns_def
  only_three_concerns_def execution_numbers_def

lemmas tree_defs = multicable_def acquisition_def array_header_def

lemmas structure_defs =
  shown_def rebinds_def cells_between_def mutated_def mutating_methods_def
  selected_in_time_def only_time_reduced_def dim_size_def

lemma replicate_numeral_Cons:
  "replicate (numeral k) x = x # replicate (pred_numeral k) x"
  by (simp add: numeral_eq_Suc)

lemma upt_0_2: "[0..<2] = [0, 1]"
  by (simp add: upt_rec)

lemmas render_defs =
  printed_def tree_defs header_def indent_def string_of_nat.simps digit_def
  replicate_numeral_Cons


section \<open>Keys, elements and structure\<close>

text \<open>
  A collection prints its elements under its keys, as many keys as elements, and the keys
  of a sequence are pairwise different.
\<close>

lemma top_keys_repr: "top_keys (repr c) = keys c"
  by (cases c) (simp_all add: comp_def case_prod_unfold)

lemma entries_repr: "entries (repr c) = map repr (elements c)"
  by (cases c) (simp_all add: comp_def case_prod_unfold)

lemma keys_count: "length (keys c) = length (elements c)"
  by (cases c) simp_all

lemma keys_of_sequence_distinct: "distinct (keys (DataSequence nm xs))"
  by (simp add: distinct_map inj_on_def)

text \<open>
  The structure of a collection keeps its keys and the dimension names of its arrays, in
  order; two collections related by a selection in time have the same keys and as many
  arrays.
\<close>

lemma skeleton_top_keys: "top_keys (skeleton t) = top_keys t"
  by (cases t) (simp_all add: comp_def case_prod_unfold)

lemma skeleton_leaves: "map (map fst) (leaves (skeleton t)) = map (map fst) (leaves t)"
proof (induction t)
  case (Leaf d)
  show ?case by (simp add: comp_def case_prod_unfold)
next
  case (Branch nm kts)
  have step: "map (map fst) (leaves (skeleton (snd p))) = map (map fst) (leaves (snd p))"
    if "p \<in> set kts" for p
    using Branch.IH [OF that, of "snd p"] by (cases p) simp
  show ?case
    by (simp add: map_concat comp_def case_prod_unfold step cong: map_cong)
qed

lemma selected_same_count:
  "selected_in_time earlier later \<Longrightarrow> length (leaves later) = length (leaves earlier)"
  by (auto simp add: selected_in_time_def dest: list_all2_lengthD)

lemma selected_same_keys:
  "selected_in_time earlier later \<Longrightarrow> top_keys later = top_keys earlier"
  by (metis selected_in_time_def skeleton_top_keys)

section \<open>Selection keeps the labels in the window\<close>










lemma snd_of_kept:
  "map snd (filter (\<lambda>(k, x). P x) kvs) = filter P (map snd kvs)"
  by (induction kvs) auto








section \<open>The embedded outputs print as recorded\<close>

text \<open>
  Each output that shows a collection or an array is embedded as a tree. Printed back, it
  is the text of the notebook file, line for line (trailing blanks included).
\<close>

lemma printed_cell_02:
  "printed cell_02 =
     [''Node:'',
      ''  CCN: '',
      ''    Cable:'',
      ''      N: '',
      ''        Acquisition:'',
      ''          0: <xdas.DataArray (time: 37500, distance: 9998)>'',
      ''  SER: '',
      ''    Cable:'',
      ''      N: '',
      ''        Acquisition:'',
      ''          0: <xdas.DataArray (time: 37500, distance: 10000)>'',
      ''      S: '',
      ''        Acquisition:'',
      ''          0: <xdas.DataArray (time: 37500, distance: 10000)>'']"
  by (simp add: cell_02_def render_defs)

lemma printed_cell_03:
  "printed cell_03 =
     [''<xdas.DataArray (time: 37500, distance: 9998)>'',
      ''VirtualStack: 715.1MB (int16)'',
      ''Coordinates:'',
      ''  * time (time): 2023-11-03T12:20:06.000 to 2023-11-03T12:30:05.984'',
      ''  * distance (distance): 0.000 to 153149.070'']"
  by (simp add: cell_03_def render_defs)

lemma printed_cell_04:
  "printed cell_04 =
     [''Node:'',
      ''  CCN: '',
      ''    Cable:'',
      ''      N: '',
      ''        Acquisition:'',
      ''          0: <xdas.DataArray (time: 37500, distance: 9998)>'',
      ''      S: '',
      ''        Acquisition:'',
      ''          0: <xdas.DataArray (time: 37500, distance: 9998)>'',
      ''          1: <xdas.DataArray (time: 37500, distance: 9998)>'',
      ''  SER: '',
      ''    Cable:'',
      ''      N: '',
      ''        Acquisition:'',
      ''          0: <xdas.DataArray (time: 37500, distance: 10000)>'',
      ''      S: '',
      ''        Acquisition:'',
      ''          0: <xdas.DataArray (time: 37500, distance: 10000)>'',
      ''  CAL: '',
      ''    Cable:'',
      ''      N: '',
      ''        Acquisition:'',
      ''          0: <xdas.DataArray (time: 37500, distance: 9998)>'']"
  by (simp add: cell_04_def render_defs)

lemma printed_cell_06:
  "printed cell_06 =
     [''Node:'',
      ''  CCN: '',
      ''    Cable:'',
      ''      N: '',
      ''        Acquisition:'',
      ''          0: <xdas.DataArray (time: 4376, distance: 9998)>'',
      ''  SER: '',
      ''    Cable:'',
      ''      N: '',
      ''        Acquisition:'',
      ''          0: <xdas.DataArray (time: 4375, distance: 10000)>'',
      ''      S: '',
      ''        Acquisition:'',
      ''          0: <xdas.DataArray (time: 4376, distance: 10000)>'']"
  by (simp add: cell_06_def render_defs)

lemma printed_cell_09:
  "printed cell_09 =
     [''Event:'',
      ''  0: <xdas.DataArray (time: 1563, distance: 10000)>'',
      ''  1: <xdas.DataArray (time: 4375, distance: 10000)>'']"
  by (simp add: cell_09_def render_defs)

lemma printed_cell_10:
  "printed cell_10 =
     [''Event:'',
      ''  id_000000: <xdas.DataArray (time: 1563, distance: 10000)>'',
      ''  id_000001: <xdas.DataArray (time: 4375, distance: 10000)>'']"
  by (simp add: cell_10_def render_defs)

lemma printed_cell_11:
  "printed cell_11 =
     [''Event:'',
      ''  id_000000: '',
      ''    Node:'',
      ''      CCN: '',
      ''        Cable:'',
      ''          N: '',
      ''            Acquisition:'',
      ''              0: <xdas.DataArray (time: 1563, distance: 9998)>'',
      ''      SER: '',
      ''        Cable:'',
      ''          N: '',
      ''            Acquisition:'',
      ''              0: <xdas.DataArray (time: 1563, distance: 10000)>'',
      ''          S: '',
      ''            Acquisition:'',
      ''              0: <xdas.DataArray (time: 1563, distance: 10000)>'',
      ''  id_000001: '',
      ''    Node:'',
      ''      CCN: '',
      ''        Cable:'',
      ''          N: '',
      ''            Acquisition:'',
      ''              0: <xdas.DataArray (time: 4376, distance: 9998)>'',
      ''      SER: '',
      ''        Cable:'',
      ''          N: '',
      ''            Acquisition:'',
      ''              0: <xdas.DataArray (time: 4375, distance: 10000)>'',
      ''          S: '',
      ''            Acquisition:'',
      ''              0: <xdas.DataArray (time: 4376, distance: 10000)>'']"
  by (simp add: cell_11_def render_defs)

lemma printed_cell_13:
  "printed cell_13 =
     [''Collection:'',
      ''  0: <xdas.DataArray (time: 6250, distance: 9998)>'',
      ''  1: <xdas.DataArray (time: 21000, distance: 6666)>'',
      ''  2: <xdas.DataArray (time: 6000, distance: 24994)>'']"
  by (simp add: cell_13_def render_defs)

text \<open>The execution count of each result is the one of its cell.\<close>

lemma results_carry_the_count_of_their_cell:
  "list_all (\<lambda>c. list_all (\<lambda>n. n = execution_count c) (concat (map result_number (outputs c))))
     (code_cells link_multi_acquisitions)"
  by (simp add: link_multi_acquisitions_def code_cells_def cell_defs)

text \<open>
  The cells apply one operator in all: the multiplication by 1000 that turns the time
  step into milliseconds inside the \<^verbatim>\<open>print\<close> of cell 14.
\<close>

lemma the_only_operator_is_a_unit_conversion:
  "filter is_operator (concat (map cell_exprs (code_cells link_multi_acquisitions)))
     = [BinOp (Name ''dt'') ''*'' (Num 1000)]"
  by (simp add: embedding_defs)

section \<open>What the code cells contain\<close>

text \<open>
  Claim C1, as the specification states it: every operation of every code cell is a call
  into the xdas library, and the cells hold no definition and no computation of their own
  such as a shell command. Cell 12 is the shell command \<^verbatim>\<open>!ls data/gps_multiacq\<close>.
\<close>

theorem shell_cell_counterexample:
  "cell_numbered link_multi_acquisitions 12 = Some cell_12
   \<and> shell_commands cell_12 = [''ls data/gps_multiacq'']
   \<and> \<not> library_only cell_12"
  by (simp add: embedding_defs)

text \<open>
  Claim C1, amended: no code cell defines a function, a class or a lambda. The calls of the
  cells are the xdas functions reached through the import aliases \<^verbatim>\<open>xd\<close> and
  \<^verbatim>\<open>xs\<close> (\<^verbatim>\<open>open_mfdatatree\<close>, \<^verbatim>\<open>DataCollection\<close>,
  \<^verbatim>\<open>open_mfdataarray\<close>, \<^verbatim>\<open>get_sampling_interval\<close>), the methods
  \<^verbatim>\<open>copy\<close>, \<^verbatim>\<open>append\<close>, \<^verbatim>\<open>update\<close>, \<^verbatim>\<open>sel\<close> and
  \<^verbatim>\<open>to_netcdf\<close> on the variables \<^verbatim>\<open>dc\<close>, \<^verbatim>\<open>dc_set\<close> and
  \<^verbatim>\<open>da\<close>, and the Python builtins \<^verbatim>\<open>slice\<close>, \<^verbatim>\<open>enumerate\<close> and
  \<^verbatim>\<open>print\<close>; no callee is computed. One cell, cell 12, runs a shell command,
  \<^verbatim>\<open>ls data/gps_multiacq\<close>.
\<close>

theorem cells_call_library_builtins_and_one_shell_command:
  "list_all defines_nothing (code_cells link_multi_acquisitions)
   \<and> xdas_aliases link_multi_acquisitions = [''xd'', ''xs'']
   \<and> remdups (concat (map (library_function (xdas_aliases link_multi_acquisitions))
         (all_calls link_multi_acquisitions)))
       = [''open_mfdatatree'', ''DataCollection'', ''open_mfdataarray'',
          ''get_sampling_interval'']
   \<and> remdups (concat (map (method_call (xdas_aliases link_multi_acquisitions))
         (all_calls link_multi_acquisitions)))
       = [(''dc_set'', ''append''), (''dc_set'', ''update''), (''dc'', ''copy''),
          (''dc'', ''to_netcdf''), (''da'', ''to_netcdf''), (''da'', ''sel''),
          (''dc'', ''sel'')]
   \<and> remdups (concat (map builtin_call (all_calls link_multi_acquisitions)))
       = [''slice'', ''enumerate'', ''print'']
   \<and> \<not> list_ex (\<lambda>c. c = Computed) (all_calls link_multi_acquisitions)
   \<and> map execution_count
         (filter (\<lambda>c. shell_commands c \<noteq> []) (code_cells link_multi_acquisitions))
       = [Some 12]
   \<and> concat (map shell_commands (code_cells link_multi_acquisitions))
       = [''ls data/gps_multiacq'']"
  by (simp add: embedding_defs)

text \<open>
  Claim C2, as the specification states it: no code cell has a loop, a branch or another
  control construct. Cell 5 is three nested \<^verbatim>\<open>for\<close> loops.
\<close>

theorem loop_cell_counterexample:
  "cell_numbered link_multi_acquisitions 5 = Some cell_05
   \<and> length (filter is_loop (cell_stmts cell_05)) = 3
   \<and> \<not> straight_line cell_05"
  by (simp add: embedding_defs)

text \<open>
  Claim C2, amended: the cells run one after the other, and the only control constructs
  written in them are \<^verbatim>\<open>for\<close> loops, four in all, in cell 5 (three nested loops over
  the collection) and in cell 14 (one loop over \<^verbatim>\<open>enumerate(dc)\<close>). No cell has a
  \<^verbatim>\<open>while\<close> loop, a branch, a conditional expression, or a \<^verbatim>\<open>try\<close>,
  \<^verbatim>\<open>raise\<close> or \<^verbatim>\<open>with\<close> statement; the twelve other code cells are
  straight-line.
\<close>

theorem only_for_loops_in_cells_5_and_14:
  "map execution_count
     (filter (\<lambda>c. \<not> straight_line c) (code_cells link_multi_acquisitions))
     = [Some 5, Some 14]
   \<and> list_all is_for
        (filter is_control (concat (map cell_stmts (code_cells link_multi_acquisitions))))
   \<and> length (filter is_control
        (concat (map cell_stmts (code_cells link_multi_acquisitions)))) = 4
   \<and> \<not> list_ex is_ifexp (concat (map cell_exprs (code_cells link_multi_acquisitions)))
   \<and> length (filter straight_line (code_cells link_multi_acquisitions)) = 12"
  by (simp add: embedding_defs)

text \<open>
  Claim C3, as the specification states it: the cells handle no error, and mismatched
  coordinate shapes across acquisitions come to the user as an exception of the library.
  Cell 13 opens the acquisitions of \<^verbatim>\<open>data/gps_multiacq\<close>, whose shapes differ, and
  its recorded output is a result, not an exception.
\<close>

theorem mismatched_shapes_counterexample:
  "cell_numbered link_multi_acquisitions 13 = Some cell_13
   \<and> calls cell_13 = [Dotted ''xd'' ''open_mfdataarray'']
   \<and> mismatched_shapes cell_13
   \<and> \<not> raised cell_13"
  by (simp add: embedding_defs)

text \<open>
  Claim C3, amended: no code cell contains error handling (\<^verbatim>\<open>try\<close>,
  \<^verbatim>\<open>except\<close>, \<^verbatim>\<open>raise\<close>, \<^verbatim>\<open>with\<close>), and no recorded output is an
  exception. Of the two failure modes, missing files come to the user as an exception of
  the library, raised exactly when no file is found. Mismatched coordinate shapes across
  acquisitions do not: \<^verbatim>\<open>open_mfdataarray\<close> then returns a DataSequence with one
  array per acquisition under the keys 0, 1, ..., and so cell 13 records it, with the
  keys 0, 1, 2 and three arrays of three different shapes.
\<close>

theorem missing_files_raise_and_mismatch_gives_sequence:
  "\<not> list_ex handles_errors (code_cells link_multi_acquisitions)
   \<and> \<not> list_ex raised (code_cells link_multi_acquisitions)
   \<and> open_mfdataarray [] = Inl FileNotFound
   \<and> isl (open_mfdataarray ds) = (ds = [])
   \<and> open_mfdataarray (d # e # ds)
       = Inr (DataSequence ''collection'' (map DataArray (d # e # ds)))
   \<and> is_sequence (DataSequence ''collection'' (map DataArray (d # e # ds)))
   \<and> keys (DataSequence ''collection'' (map DataArray (d # e # ds)))
       = map IntKey [0..<length (d # e # ds)]
   \<and> calls cell_13 = [Dotted ''xd'' ''open_mfdataarray'']
   \<and> arrays_shown cell_13
       = [[(''time'', 6250), (''distance'', 9998)],
          [(''time'', 21000), (''distance'', 6666)],
          [(''time'', 6000), (''distance'', 24994)]]
   \<and> distinct (arrays_shown cell_13)
   \<and> map top_keys (shown cell_13) = [[IntKey 0, IntKey 1, IntKey 2]]
   \<and> map_sum id (\<lambda>c. [repr c]) (open_mfdataarray (arrays_shown cell_13))
       = Inr (shown cell_13)"
proof (intro conjI)
  show "\<not> list_ex handles_errors (code_cells link_multi_acquisitions)"
    by (simp add: embedding_defs)
  show "\<not> list_ex raised (code_cells link_multi_acquisitions)"
    by (simp add: embedding_defs)
  show "open_mfdataarray [] = Inl FileNotFound" by simp
  show "isl (open_mfdataarray ds) = (ds = [])"
    by (cases ds rule: open_mfdataarray.cases) simp_all
  show "open_mfdataarray (d # e # ds)
          = Inr (DataSequence ''collection'' (map DataArray (d # e # ds)))"
    by simp
  show "is_sequence (DataSequence ''collection'' (map DataArray (d # e # ds)))" by simp
  show "keys (DataSequence ''collection'' (map DataArray (d # e # ds)))
          = map IntKey [0..<length (d # e # ds)]"
    by simp
  show "calls cell_13 = [Dotted ''xd'' ''open_mfdataarray'']"
    by (simp add: cell_13_def calls_def cell_exprs_def cell_stmts_def)
  show "arrays_shown cell_13
          = [[(''time'', 6250), (''distance'', 9998)],
             [(''time'', 21000), (''distance'', 6666)],
             [(''time'', 6000), (''distance'', 24994)]]"
    by (simp add: cell_13_def arrays_shown_def array_header_def)
  show "distinct (arrays_shown cell_13)"
    by (simp add: cell_13_def arrays_shown_def array_header_def)
  show "map top_keys (shown cell_13) = [[IntKey 0, IntKey 1, IntKey 2]]"
    by (simp add: cell_13_def shown_def)
  show "map_sum id (\<lambda>c. [repr c]) (open_mfdataarray (arrays_shown cell_13))
          = Inr (shown cell_13)"
    by (simp add: cell_13_def arrays_shown_def shown_def array_header_def upper_def upt_rec)
qed

text \<open>
  Claim C4: no source file of the repository defines a function, a class (a protocol is a
  class) or a lambda: neither a code cell of the two notebooks, at any nesting depth, nor
  a fenced block of the three README documents.
\<close>

theorem repository_defines_nothing:
  "list_all authors_nothing repository \<and> length repository = 5"
  by (simp add: embedding_defs)

text \<open>
  Claim C6: every array shown in the outputs of the notebook, 26 in all (opened from
  files, picked out of a collection, selected, or stored in a collection), has exactly the
  two dimensions time and distance, in this order.
\<close>

theorem arrays_are_time_by_distance:
  "list_all time_by_distance (concat (map arrays_shown (code_cells link_multi_acquisitions)))
   \<and> length (concat (map arrays_shown (code_cells link_multi_acquisitions))) = 26"
  by (simp add: embedding_defs)

text \<open>
  Claim C7: the code cells carry the execution counts 1 to 14, strictly increasing in
  document order, and no cell has an asynchronous construct (\<^verbatim>\<open>async def\<close>,
  \<^verbatim>\<open>async for\<close>, \<^verbatim>\<open>async with\<close>, \<^verbatim>\<open>await\<close>); the only modules
  imported are numpy, xdas and xdas.signal.
\<close>

theorem cells_run_in_sequence:
  "map execution_count (code_cells link_multi_acquisitions) = map Some [1, 2, 3, 4, 5, 6, 7, 8, 9, 10, 11, 12, 13, 14]
   \<and> sorted_wrt (<) (execution_numbers link_multi_acquisitions)
   \<and> \<not> list_ex concurrent (code_cells link_multi_acquisitions)
   \<and> map fst (imports_of link_multi_acquisitions) = [''numpy'', ''xdas'', ''xdas.signal'']"
  by (simp add: embedding_defs)

section \<open>What the README contains\<close>

text \<open>
  Claim C8, as the specification states it: the setup instructions of the README are
  exactly environment creation, package installation and the sample-data download. The
  first part of the setup section, \<^emph>\<open>Get the source code\<close>, is none of them: it clones
  the repository with git.
\<close>

theorem get_the_source_code_counterexample:
  "''Get the source code'' \<in> set (setup_parts readme_md)
   \<and> map program (part_commands readme_md ''Get the source code'')
       = [''git'', ''cd'', ''git'', ''git'']
   \<and> \<not> only_three_concerns readme_md"
  by (simp add: embedding_defs)

text \<open>
  Claim C8, amended: every file of the repository is a notebook or a README, and the setup
  section of README.md has five parts: getting the source code (git clone, reset and
  pull), creating the environment (conda), installing xdas (pip), installing the additional
  dependencies notebook and seisbench (pip), and downloading the data samples (wget of
  \<^verbatim>\<open>https://zenodo.org/records/11212055/files/data.zip\<close>, then unzip and a fresh
  \<^verbatim>\<open>outputs\<close> directory).
\<close>

theorem readme_setup_has_five_parts:
  "map kind_of repository = [Notebook, Readme, Notebook, Readme, Readme]
   \<and> setup_parts readme_md
       = [''Get the source code'', ''Creating a dedicated environment'',
          ''Installing Xdas'', ''Additional dependencies'', ''Download Data samples'']
   \<and> map (\<lambda>t. map program (part_commands readme_md t)) (setup_parts readme_md)
       = [[''git'', ''cd'', ''git'', ''git''],
          [''conda'', ''conda'', ''conda'', ''conda''],
          [''pip''],
          [''pip''],
          [''wget'', ''unzip'', ''rm'', ''mkdir'']]
   \<and> part_commands readme_md ''Installing Xdas'' = [''pip install xdas'']
   \<and> part_commands readme_md ''Additional dependencies'' = [''pip install notebook seisbench'']
   \<and> part_commands readme_md ''Download Data samples''
       = [''wget https://zenodo.org/records/11212055/files/data.zip'',
          ''unzip data.zip'', ''rm -rf outputs'', ''mkdir -p outputs'']"
  by (simp add: embedding_defs)

section \<open>Collections\<close>

text \<open>
  Claim C5: a DataCollection is a nested container of one of two kinds. Built from a list
  it is a DataSequence, whose keys are the positions 0, 1, ... of the list; built from a
  dict it is a DataMapping, whose keys are the string keys given; in both, the elements
  are the values passed, arrays or collections alike. The three constructions of the
  notebook agree: the keys printed in cells 9, 10 and 11 are those the literal in the
  source announces, the elements are arrays in cells 9 and 10 and nested collections in
  cell 11, and what the three cells print is the printed form of the constructed value.
\<close>

theorem DataCollection_from_list_and_dict:
  "DataCollection (PyList xs) nm = DataSequence nm xs
   \<and> is_sequence (DataCollection (PyList xs) nm)
   \<and> keys (DataCollection (PyList xs) nm) = map IntKey [0..<length xs]
   \<and> elements (DataCollection (PyList xs) nm) = xs
   \<and> DataCollection (PyDict kvs) nm = DataMapping nm kvs
   \<and> is_mapping (DataCollection (PyDict kvs) nm)
   \<and> keys (DataCollection (PyDict kvs) nm) = map (\<lambda>(k, v). StrKey k) kvs
   \<and> elements (DataCollection (PyDict kvs) nm) = map snd kvs
   \<and> top_keys (repr (DataCollection v nm)) = keys (DataCollection v nm)
   \<and> entries (repr (DataCollection v nm)) = map repr (elements (DataCollection v nm))
   \<and> map (\<lambda>c. concat (map constructed (source c))) [cell_09, cell_10, cell_11]
       = map (\<lambda>c. map top_keys (shown c)) [cell_09, cell_10, cell_11]
   \<and> map (\<lambda>c. map top_keys (shown c)) [cell_09, cell_10, cell_11]
       = [[[IntKey 0, IntKey 1]],
          [[StrKey ''id_000000'', StrKey ''id_000001'']],
          [[StrKey ''id_000000'', StrKey ''id_000001'']]]
   \<and> map (\<lambda>c. map is_leaf (concat (map entries (shown c)))) [cell_09, cell_10, cell_11]
       = [[True, True], [True, True], [False, False]]
   \<and> shown cell_09
       = [repr (DataCollection
            (PyList [time_distance 1563 10000, time_distance 4375 10000]) ''event'')]
   \<and> shown cell_10
       = [repr (DataCollection
            (PyDict [(''id_000000'', time_distance 1563 10000),
                     (''id_000001'', time_distance 4375 10000)]) ''event'')]
   \<and> shown cell_11
       = [repr (DataCollection
            (PyDict [(''id_000000'', multicable_collection 1563 1563 1563),
                     (''id_000001'', multicable_collection 4376 4375 4376)]) ''event'')]"
  by (simp add: cell_09_def cell_10_def cell_11_def shown_def tree_defs sel_time_def
      time_slice_def time_distance_def multicable_collection_def upper_def upt_0_2
      top_keys_repr entries_repr)






text \<open>
  Claim C10: changing a deep copy leaves the original as it was. Cell 4 binds
  \<^verbatim>\<open>dc_set\<close> to \<^verbatim>\<open>dc.copy(deep=True)\<close>, and the three changes it makes, a store
  under a new key, an \<^verbatim>\<open>append\<close> and an \<^verbatim>\<open>update\<close>, all go through
  \<^verbatim>\<open>dc_set\<close>; they are the only changes in place of the whole notebook, and
  \<^verbatim>\<open>dc\<close> is not bound again before cell 13. The copy printed by cell 4 has the cable S
  under CCN, with two acquisitions, and the node CAL. The original, when cells 6 and 11
  use it afterwards, still has the structure cell 2 printed: the nodes CCN and SER, the
  one cable N with its one acquisition under CCN, no cable S there and no node CAL.
\<close>

theorem deep_copy_mutation_leaves_original:
  "take 1 (source cell_04)
     = [Assign [Name ''dc_set'']
          (Call (Attribute (Name ''dc'') ''copy'') [] [(''deep'', Bool True)])]
   \<and> mutated cell_04 = [''dc_set'', ''dc_set'', ''dc_set'']
   \<and> concat (map mutated (code_cells link_multi_acquisitions))
       = [''dc_set'', ''dc_set'', ''dc_set'']
   \<and> ''dc'' \<notin> set (concat (map rebinds (cells_between link_multi_acquisitions 3 12)))
   \<and> map (lookup [StrKey ''CCN'', StrKey ''S'']) (shown cell_04)
       = [Some (acquisition [array_header 37500 9998, array_header 37500 9998])]
   \<and> map (lookup [StrKey ''CAL'']) (shown cell_04)
       = [Some (Branch ''Cable'' [(StrKey ''N'', acquisition [array_header 37500 9998])])]
   \<and> map top_keys (shown cell_02) = [[StrKey ''CCN'', StrKey ''SER'']]
   \<and> map (lookup [StrKey ''CCN'', StrKey ''S'']) (shown cell_02) = [None]
   \<and> map skeleton (shown cell_06) = map skeleton (shown cell_02)
   \<and> map top_keys (shown cell_06) = [[StrKey ''CCN'', StrKey ''SER'']]
   \<and> map (lookup [StrKey ''CCN'', StrKey ''S'']) (shown cell_06) = [None]
   \<and> map (lookup [StrKey ''CAL'']) (shown cell_06) = [None]
   \<and> map (lookup [StrKey ''CCN'', StrKey ''N'']) (shown cell_06)
       = [Some (acquisition [array_header 4376 9998])]
   \<and> map skeleton (concat (map entries (shown cell_11)))
       = map skeleton (shown cell_02 @ shown cell_02)"
  by (simp add: embedding_defs structure_defs)

end
